theory Spec2Isabelle
  imports Main
begin

section \<open>Hashgraph chat tool: the client's event store and the signalling relay\<close>

text \<open>
  The development embeds the client program (\<^verbatim>\<open>src/main.go\<close>: \<^verbatim>\<open>hashEvent\<close>,
  \<^verbatim>\<open>signEvent\<close>, \<^verbatim>\<open>verifyEventSignature\<close>, \<^verbatim>\<open>Hashgraph.AddEvent\<close> and the
  \<^verbatim>\<open>"event"\<close> case of the message loop in \<^verbatim>\<open>main\<close>) and the \<^verbatim>\<open>"event"\<close> case of
  the relay's \<^verbatim>\<open>signalHandler\<close>.

  Go's \<^verbatim>\<open>string\<close> and \<^verbatim>\<open>[]byte\<close> are both sequences of bytes; both are modelled as
  \<^typ>\<open>string\<close>, a list of \<^typ>\<open>char\<close>, which is an 8-bit byte. The conversions
  \<^verbatim>\<open>[]byte(s)\<close> and \<^verbatim>\<open>string(b)\<close> are then the identity.
\<close>

subsection \<open>Library: \<^verbatim>\<open>crypto/sha256\<close>\<close>

text \<open>
  SHA-256 as the Go library computes it (FIPS 180-4). A \<^verbatim>\<open>uint32\<close> is a natural number
  below \<open>2 ^ 32\<close> with the wrap-around written out.
\<close>

definition wrap32 :: "nat \<Rightarrow> nat" where
  "wrap32 s = s mod 4294967296"

definition add32 :: "nat \<Rightarrow> nat \<Rightarrow> nat" where
  "add32 x y = wrap32 (x + y)"

text \<open>\<^verbatim>\<open>bits.RotateLeft32(x, -n)\<close>: the low \<open>n\<close> bits move to the top.\<close>

definition rotr32 :: "nat \<Rightarrow> nat \<Rightarrow> nat" where
  "rotr32 n x = drop_bit n x + push_bit (32 - n) (take_bit n x)"

definition not32 :: "nat \<Rightarrow> nat" where
  "not32 x = 4294967295 - x"

definition Ch :: "nat \<Rightarrow> nat \<Rightarrow> nat \<Rightarrow> nat" where
  "Ch x y z = xor (and x y) (and (not32 x) z)"

definition Maj :: "nat \<Rightarrow> nat \<Rightarrow> nat \<Rightarrow> nat" where
  "Maj x y z = xor (xor (and x y) (and x z)) (and y z)"

definition bsig0 :: "nat \<Rightarrow> nat" where
  "bsig0 x = xor (xor (rotr32 2 x) (rotr32 13 x)) (rotr32 22 x)"

definition bsig1 :: "nat \<Rightarrow> nat" where
  "bsig1 x = xor (xor (rotr32 6 x) (rotr32 11 x)) (rotr32 25 x)"

definition ssig0 :: "nat \<Rightarrow> nat" where
  "ssig0 x = xor (xor (rotr32 7 x) (rotr32 18 x)) (drop_bit 3 x)"

definition ssig1 :: "nat \<Rightarrow> nat" where
  "ssig1 x = xor (xor (rotr32 17 x) (rotr32 19 x)) (drop_bit 10 x)"

text \<open>The round constants and the initial state, in decimal.\<close>

definition sha256_K :: "nat list" where
  "sha256_K =
   [1116352408, 1899447441, 3049323471, 3921009573, 961987163, 1508970993,
    2453635748, 2870763221, 3624381080, 310598401, 607225278, 1426881987,
    1925078388, 2162078206, 2614888103, 3248222580, 3835390401, 4022224774,
    264347078, 604807628, 770255983, 1249150122, 1555081692, 1996064986,
    2554220882, 2821834349, 2952996808, 3210313671, 3336571891, 3584528711,
    113926993, 338241895, 666307205, 773529912, 1294757372, 1396182291,
    1695183700, 1986661051, 2177026350, 2456956037, 2730485921, 2820302411,
    3259730800, 3345764771, 3516065817, 3600352804, 4094571909, 275423344,
    430227734, 506948616, 659060556, 883997877, 958139571, 1322822218,
    1537002063, 1747873779, 1955562222, 2024104815, 2227730452, 2361852424,
    2428436474, 2756734187, 3204031479, 3329325298]"

definition sha256_init :: "nat list" where
  "sha256_init =
   [1779033703, 3144134277, 1013904242, 2773480762,
    1359893119, 2600822924, 528734635, 1541459225]"

fun sha256_step :: "nat \<Rightarrow> nat \<Rightarrow> nat list \<Rightarrow> nat list" where
  "sha256_step t1 t2 [a, b, c, d, e, f, g, h] =
     [add32 t1 t2, a, b, c, add32 d t1, e, f, g]"
| "sha256_step t1 t2 st = st"

fun sha256_round :: "nat \<Rightarrow> nat \<Rightarrow> nat list \<Rightarrow> nat list" where
  "sha256_round k w [a, b, c, d, e, f, g, h] =
     sha256_step (add32 (add32 (add32 (add32 h (bsig1 e)) (Ch e f g)) k) w)
       (add32 (bsig0 a) (Maj a b c)) [a, b, c, d, e, f, g, h]"
| "sha256_round k w st = st"

text \<open>
  The message schedule is kept as a window of sixteen words: \<open>ws ! 0\<close> is the word of the
  current round and the word sixteen rounds ahead is appended.
\<close>

definition sha256_next :: "nat list \<Rightarrow> nat" where
  "sha256_next ws =
     add32 (add32 (add32 (ssig1 (ws ! 14)) (ws ! 9)) (ssig0 (ws ! 1))) (ws ! 0)"

fun sha256_rounds :: "nat list \<Rightarrow> nat list \<Rightarrow> nat list \<Rightarrow> nat list" where
  "sha256_rounds [] ws st = st"
| "sha256_rounds (k # ks) ws st =
     sha256_rounds ks (tl ws @ [sha256_next ws]) (sha256_round k (ws ! 0) st)"

fun be32s :: "string \<Rightarrow> nat list" where
  "be32s (a # b # c # d # rest) =
     (((of_char a * 256 + of_char b) * 256 + of_char c) * 256 + of_char d) # be32s rest"
| "be32s bs = []"

definition sha256_block :: "nat list \<Rightarrow> string \<Rightarrow> nat list" where
  "sha256_block hs blk = map2 add32 hs (sha256_rounds sha256_K (be32s blk) hs)"

function sha256_blocks :: "nat list \<Rightarrow> string \<Rightarrow> nat list" where
  "sha256_blocks hs bs =
     (if length bs < 64 then hs
      else sha256_blocks (sha256_block hs (take 64 bs)) (drop 64 bs))"
  by pat_completeness auto
termination
  by (relation "measure (\<lambda>(hs, bs). length bs)") auto

declare sha256_blocks.simps [simp del]

definition be32_bytes :: "nat \<Rightarrow> string" where
  "be32_bytes n =
     [char_of (drop_bit 24 n mod 256), char_of (drop_bit 16 n mod 256),
      char_of (drop_bit 8 n mod 256), char_of (n mod 256)]"

definition be64_bytes :: "nat \<Rightarrow> string" where
  "be64_bytes n = be32_bytes (drop_bit 32 n) @ be32_bytes n"

text \<open>
  Padding: the byte \<open>0x80\<close>, zero bytes up to 56 modulo 64, and the length in bits as a
  64-bit big-endian number.
\<close>

definition sha256_pad :: "string \<Rightarrow> string" where
  "sha256_pad m =
     m @ [char_of (128 :: nat)]
       @ replicate ((119 - length m mod 64) mod 64) (char_of (0 :: nat))
       @ be64_bytes ((8 * length m) mod 2 ^ 64)"

definition sha256 :: "string \<Rightarrow> string" where
  "sha256 m = concat (map be32_bytes (sha256_blocks sha256_init (sha256_pad m)))"

text \<open>
  \<^verbatim>\<open>hash.Hash\<close>: \<^verbatim>\<open>sha256.New()\<close>, \<^verbatim>\<open>Write\<close> and \<^verbatim>\<open>Sum(nil)\<close>. The state of the
  running hash is the sequence of bytes written so far; \<^verbatim>\<open>Sum(nil)\<close> is the digest of
  all of them and leaves the state as it is.
\<close>

definition sha256_New :: "string" where
  "sha256_New = []"

definition Write :: "string \<Rightarrow> string \<Rightarrow> string" where
  "Write h p = h @ p"

definition Sum_nil :: "string \<Rightarrow> string" where
  "Sum_nil h = sha256 h"

subsection \<open>Library: \<^verbatim>\<open>encoding/hex\<close> and \<^verbatim>\<open>math/big\<close>\<close>

definition hexdigit :: "nat \<Rightarrow> char" where
  "hexdigit n = ''0123456789abcdef'' ! n"

definition hex_byte :: "char \<Rightarrow> string" where
  "hex_byte b = [hexdigit (of_char b div 16), hexdigit (of_char b mod 16)]"

definition hex_EncodeToString :: "string \<Rightarrow> string" where
  "hex_EncodeToString src = concat (map hex_byte src)"

text \<open>\<^verbatim>\<open>fromHexChar\<close>: digits, lower-case and upper-case letters up to \<open>f\<close>.\<close>

definition fromHexChar :: "char \<Rightarrow> nat option" where
  "fromHexChar c =
     (let n = (of_char c :: nat)
      in if 48 \<le> n \<and> n \<le> 57 then Some (n - 48)
         else if 97 \<le> n \<and> n \<le> 102 then Some (n - 87)
         else if 65 \<le> n \<and> n \<le> 70 then Some (n - 55)
         else None)"

text \<open>
  \<^verbatim>\<open>hex.DecodeString\<close> returns an error for an input of odd length
  (\<^verbatim>\<open>ErrLength\<close>) or with a character that is no hexadecimal digit
  (\<^verbatim>\<open>InvalidByteError\<close>); the caller only tests \<^verbatim>\<open>err != nil\<close>, so both are \<open>None\<close>.
\<close>

fun hex_DecodeString :: "string \<Rightarrow> string option" where
  "hex_DecodeString [] = Some []"
| "hex_DecodeString [p] = None"
| "hex_DecodeString (p # q # rest) =
     (case fromHexChar p of
        None \<Rightarrow> None
      | Some a \<Rightarrow>
          (case fromHexChar q of
             None \<Rightarrow> None
           | Some b \<Rightarrow>
               (case hex_DecodeString rest of
                  None \<Rightarrow> None
                | Some dst \<Rightarrow> Some (char_of (a * 16 + b) # dst))))"

text \<open>
  \<^verbatim>\<open>(*big.Int).Bytes\<close>: the big-endian bytes of the absolute value with no leading
  zero byte (none at all for 0). \<^verbatim>\<open>(*big.Int).SetBytes\<close>: the unsigned number a
  big-endian byte sequence denotes.
\<close>

function Bytes :: "nat \<Rightarrow> string" where
  "Bytes n = (if n = 0 then [] else Bytes (n div 256) @ [char_of (n mod 256)])"
  by pat_completeness auto
termination
  by (relation "measure id") auto

declare Bytes.simps [simp del]

definition SetBytes :: "string \<Rightarrow> nat" where
  "SetBytes buf = foldl (\<lambda>acc b. acc * 256 + of_char b) 0 buf"

subsection \<open>Library parameters: \<^verbatim>\<open>time\<close> and \<^verbatim>\<open>crypto/ecdsa\<close>\<close>

text \<open>
  Three library functions are parameters of the model, collected in one record:
  \<^item> \<open>time_String\<close> is \<^verbatim>\<open>Time.String()\<close> on the type \<open>'t\<close> of \<^verbatim>\<open>time.Time\<close> values;
  \<^item> \<open>ecdsa_Sign g k h\<close> is \<^verbatim>\<open>ecdsa.Sign(rand.Reader, k, h)\<close>, where \<open>g\<close> is what the call
    reads from \<^verbatim>\<open>rand.Reader\<close>: the error (\<open>Inl\<close>) or the pair \<open>(r, s)\<close>, two positive
    \<^verbatim>\<open>*big.Int\<close>;
  \<^item> \<open>ecdsa_Verify p h r s\<close> is \<^verbatim>\<open>ecdsa.Verify(p, h, r, s)\<close>.
\<close>

record ('t, 'k, 'p, 'g) golib =
  time_String :: "'t \<Rightarrow> string"
  ecdsa_Sign :: "'g \<Rightarrow> 'k \<Rightarrow> string \<Rightarrow> string + nat \<times> nat"
  ecdsa_Verify :: "'p \<Rightarrow> string \<Rightarrow> nat \<Rightarrow> nat \<Rightarrow> bool"

subsection \<open>The client: events and the store (\<^verbatim>\<open>src/main.go\<close>)\<close>

text \<open>
  \<^verbatim>\<open>Famous *bool\<close> is \<open>None\<close> for \<^verbatim>\<open>nil\<close>. \<^verbatim>\<open>RoundCreated\<close> and \<^verbatim>\<open>LamportTime\<close> are
  only stored and compared for equality (as a map key), never computed with, so they are
  integers.
\<close>

record 't Event =
  Transactions :: "string list"
  SelfParent :: string
  OtherParent :: string
  Creator :: string
  Timestamp :: 't
  Signature :: string
  Hash :: string
  RoundCreated :: int
  Famous :: "bool option"
  Witness :: bool
  LamportTime :: int

text \<open>
  The store holds pointers to events (\<^verbatim>\<open>*Event\<close>), and \<^verbatim>\<open>AddEvent\<close> writes through the
  pointer it is given, so events live in a heap: a pointer is an address, and the
  \<^verbatim>\<open>nil\<close> pointer is an address the heap does not hold. Reading through it panics.
\<close>

type_synonym addr = nat

type_synonym 't heap = "addr \<rightharpoonup> 't Event"

datatype fault = NilPointerDereference

record ('k, 'p) Hashgraph =
  Events :: "string \<rightharpoonup> addr"
  Rounds :: "int \<rightharpoonup> addr list"
  privateKey :: 'k
  publicKey :: 'p

definition NewHashgraph :: "'k \<Rightarrow> 'p \<Rightarrow> ('k, 'p) Hashgraph" where
  "NewHashgraph privKey pubKey =
     \<lparr>Events = Map.empty, Rounds = Map.empty, privateKey = privKey, publicKey = pubKey\<rparr>"

text \<open>
  \<^verbatim>\<open>hashEvent\<close>, lines 102 to 109: the bytes written to the running hash, in the order
  of the calls of \<^verbatim>\<open>Write\<close>; line 110: the digest of them in hexadecimal.
\<close>

definition hashEvent_writes :: "('t, 'k, 'p, 'g) golib \<Rightarrow> 't Event \<Rightarrow> string" where
  "hashEvent_writes L event =
     foldl Write
       (Write (Write (Write (Write sha256_New (Creator event)) (SelfParent event))
          (OtherParent event)) (time_String L (Timestamp event)))
       (Transactions event)"

definition hashEvent :: "('t, 'k, 'p, 'g) golib \<Rightarrow> 't Event \<Rightarrow> string" where
  "hashEvent L event = hex_EncodeToString (Sum_nil (hashEvent_writes L event))"

text \<open>
  \<^verbatim>\<open>signEvent\<close> signs the SHA-256 of the \<^verbatim>\<open>Hash\<close> string and stores
  \<^verbatim>\<open>append(r.Bytes(), s.Bytes()...)\<close> in hexadecimal; on an error of \<^verbatim>\<open>ecdsa.Sign\<close>
  the event is left as it is.
\<close>

definition signEvent ::
  "('t, 'k, 'p, 'g) golib \<Rightarrow> 'g \<Rightarrow> 't Event \<Rightarrow> 'k \<Rightarrow> string + 't Event" where
  "signEvent L g event privKey =
     (case ecdsa_Sign L g privKey (sha256 (Hash event)) of
        Inl err \<Rightarrow> Inl err
      | Inr (r, s) \<Rightarrow>
          Inr (event\<lparr>Signature := hex_EncodeToString (Bytes r @ Bytes s)\<rparr>))"

text \<open>
  \<^verbatim>\<open>verifyEventSignature\<close> decodes the signature, cuts it in the middle
  (\<^verbatim>\<open>signature[:len(signature)/2]\<close> and \<^verbatim>\<open>signature[len(signature)/2:]\<close>) and
  verifies the two halves as \<open>r\<close> and \<open>s\<close>.
\<close>

definition verifyEventSignature ::
  "('t, 'k, 'p, 'g) golib \<Rightarrow> 't Event \<Rightarrow> 'p \<Rightarrow> bool" where
  "verifyEventSignature L event pubKey =
     (case hex_DecodeString (Signature event) of
        None \<Rightarrow> False
      | Some signature \<Rightarrow>
          ecdsa_Verify L pubKey (sha256 (Hash event))
            (SetBytes (take (length signature div 2) signature))
            (SetBytes (drop (length signature div 2) signature)))"

text \<open>
  \<^verbatim>\<open>Hashgraph.AddEvent\<close>, under the lock. The result is the panic, or the returned
  \<^verbatim>\<open>error\<close> (\<open>None\<close> for \<^verbatim>\<open>nil\<close>) with the store and the heap after the call. A missing
  key of \<^verbatim>\<open>Rounds\<close> reads as the \<^verbatim>\<open>nil\<close> slice, to which \<^verbatim>\<open>append\<close> adds.
\<close>

definition round_bucket :: "('k, 'p) Hashgraph \<Rightarrow> int \<Rightarrow> addr list" where
  "round_bucket hg r = (case Rounds hg r of None \<Rightarrow> [] | Some es \<Rightarrow> es)"

definition AddEvent ::
  "('t, 'k, 'p, 'g) golib \<Rightarrow> 'g \<Rightarrow> ('k, 'p) Hashgraph \<Rightarrow> addr \<Rightarrow> 't heap
     \<Rightarrow> fault + (string option \<times> ('k, 'p) Hashgraph \<times> 't heap)" where
  "AddEvent L g hg event \<sigma> =
     (case \<sigma> event of
        None \<Rightarrow> Inl NilPointerDereference
      | Some e \<Rightarrow>
          (case signEvent L g (e\<lparr>Hash := hashEvent L e\<rparr>) (privateKey hg) of
             Inl err \<Rightarrow> Inr (Some err, hg, \<sigma>(event \<mapsto> e\<lparr>Hash := hashEvent L e\<rparr>))
           | Inr e' \<Rightarrow>
               Inr (None,
                    hg\<lparr>Events := (Events hg)(Hash e' \<mapsto> event),
                       Rounds := (Rounds hg)(RoundCreated e' \<mapsto>
                                   round_bucket hg (RoundCreated e') @ [event])\<rparr>,
                    \<sigma>(event \<mapsto> e'))))"

text \<open>
  The \<^verbatim>\<open>"event"\<close> case of the message loop in \<^verbatim>\<open>main\<close> (lines 255 to 267):
  \<^verbatim>\<open>msg.Event\<close> is verified with the node's \<^verbatim>\<open>publicKey\<close>, then added. \<open>Return\<close> ends
  the loop (the \<^verbatim>\<open>return\<close> statements), \<open>Continue\<close> goes on to the next message.
\<close>

datatype control = Continue | Return

definition main_event_case ::
  "('t, 'k, 'p, 'g) golib \<Rightarrow> 'g \<Rightarrow> 'p \<Rightarrow> ('k, 'p) Hashgraph \<Rightarrow> addr \<Rightarrow> 't heap
     \<Rightarrow> fault + (control \<times> ('k, 'p) Hashgraph \<times> 't heap)" where
  "main_event_case L g pubKey hashgraph msgEvent \<sigma> =
     (case \<sigma> msgEvent of
        None \<Rightarrow> Inl NilPointerDereference
      | Some e \<Rightarrow>
          if \<not> verifyEventSignature L e pubKey then Inr (Return, hashgraph, \<sigma>)
          else (case AddEvent L g hashgraph msgEvent \<sigma> of
                  Inl f \<Rightarrow> Inl f
                | Inr (Some err, hg', \<sigma>') \<Rightarrow> Inr (Return, hg', \<sigma>')
                | Inr (None, hg', \<sigma>') \<Rightarrow> Inr (Continue, hg', \<sigma>')))"

subsection \<open>The relay: the \<^verbatim>\<open>"event"\<close> case of \<^verbatim>\<open>signalHandler\<close>\<close>

text \<open>
  The relay's \<^verbatim>\<open>Message\<close>; \<open>'e\<close> is the type \<^verbatim>\<open>server.Event\<close>, whose declaration is
  not among the sources.
\<close>

record 'e Message =
  MsgType :: string
  MsgSDP :: string
  MsgCandidate :: string
  MsgSelfParent :: string
  MsgOtherParent :: string
  MsgEvent :: "'e option"
  MsgTargetNode :: string

text \<open>
  What the handler does to the outside, in order: a line of the log, or
  \<^verbatim>\<open>WriteJSON\<close> of a message on a connection of type \<open>'c\<close>.
\<close>

datatype ('c, 'e) effect = Log string | WriteJSON 'c "'e Message"

text \<open>
  \<^verbatim>\<open>server.HashgraphManagerInstance.AddEvent\<close> is not among the sources: the error it
  returns is the parameter \<open>addErr\<close> (\<open>None\<close> for \<^verbatim>\<open>nil\<close>), and \<open>writeErr\<close> is the error
  of \<^verbatim>\<open>targetConn.WriteJSON\<close>.
\<close>

definition signalHandler_event ::
  "(string \<rightharpoonup> 'c) \<Rightarrow> string \<Rightarrow> 'e Message \<Rightarrow> string option \<Rightarrow> string option
     \<Rightarrow> ('c, 'e) effect list" where
  "signalHandler_event sessions nodeID msg addErr writeErr =
     [Log ''Received event'']
     @ (case addErr of
          None \<Rightarrow> []
        | Some err \<Rightarrow> [Log (''Failed to add event to Hashgraph: '' @ err)])
     @ (if MsgTargetNode msg = nodeID
        then [Log ''Target node is itself, handling event directly'']
        else (case sessions (MsgTargetNode msg) of
                Some targetConn \<Rightarrow>
                  WriteJSON targetConn msg
                  # (case writeErr of
                       None \<Rightarrow> []
                     | Some err \<Rightarrow> [Log (''Failed to forward event: '' @ err)])
              | None \<Rightarrow> [Log ''Target node does not exist or has disconnected'']))"

text \<open>The connections a list of effects writes to.\<close>

fun forwarded :: "('c, 'e) effect list \<Rightarrow> 'c list" where
  "forwarded [] = []"
| "forwarded (Log l # fx) = forwarded fx"
| "forwarded (WriteJSON c m # fx) = c # forwarded fx"

subsection \<open>The invariant of the store\<close>

text \<open>
  Every key of \<^verbatim>\<open>Events\<close> points to an event of the heap whose \<^verbatim>\<open>Hash\<close> field is the
  key and whose fields hash to the key.
\<close>

definition store_inv ::
  "('t, 'k, 'p, 'g) golib \<Rightarrow> ('k, 'p) Hashgraph \<Rightarrow> 't heap \<Rightarrow> bool" where
  "store_inv L hg \<sigma> \<longleftrightarrow>
     (\<forall>k a. Events hg k = Some a \<longrightarrow>
        (\<exists>e. \<sigma> a = Some e \<and> Hash e = k \<and> hashEvent L e = k))"

text \<open>
  The stores that the program can reach: a new store, a fresh event on the heap (one that
  \<^verbatim>\<open>json.Unmarshal\<close> or the literal \<^verbatim>\<open>&Event{...}\<close> allocates), and a call of
  \<^verbatim>\<open>AddEvent\<close>. Nothing else in the program writes to an event or to the maps.
\<close>

inductive reachable ::
  "('t, 'k, 'p, 'g) golib \<Rightarrow> ('k, 'p) Hashgraph \<Rightarrow> 't heap \<Rightarrow> bool"
  for L :: "('t, 'k, 'p, 'g) golib" where
  new: "reachable L (NewHashgraph privKey pubKey) \<sigma>"
| alloc: "reachable L hg \<sigma> \<Longrightarrow> \<sigma> a = None \<Longrightarrow> reachable L hg (\<sigma>(a \<mapsto> e))"
| add: "reachable L hg \<sigma> \<Longrightarrow> AddEvent L g hg p \<sigma> = Inr (err, hg', \<sigma>')
         \<Longrightarrow> reachable L hg' \<sigma>'"

subsection \<open>Concrete inputs\<close>

text \<open>
  To run the model on concrete inputs the three parameters need values. In \<open>demo_lib\<close> a
  time is given by its rendering, a key is a number that is its own public key, and the
  signature with the nonce \<open>g\<close> under the key \<open>k\<close> is the pair \<open>(g, g * k mod 251 + 1)\<close>
  whatever the digest is; no entropy (\<open>g = 0\<close>) is the error of \<^verbatim>\<open>ecdsa.Sign\<close>.
\<close>

definition demo_lib :: "(string, nat, nat, nat) golib" where
  "demo_lib =
     \<lparr>time_String = (\<lambda>t. t),
      ecdsa_Sign = (\<lambda>g k h. if g = 0 then Inl ''no entropy''
                              else Inr (g, (g * k) mod 251 + 1)),
      ecdsa_Verify = (\<lambda>p h r s. 0 < r \<and> s = (r * p) mod 251 + 1)\<rparr>"

text \<open>A root event of \<open>alice\<close> in round 5, not hashed and not signed yet.\<close>

definition ev_hello :: "string Event" where
  "ev_hello =
     \<lparr>Transactions = [''hello''], SelfParent = [], OtherParent = [],
      Creator = ''alice'', Timestamp = ''2024-01-01 00:00:00 +0000 UTC'',
      Signature = [], Hash = [], RoundCreated = 5, Famous = None,
      Witness = False, LamportTime = 0\<rparr>"

text \<open>An event of \<open>alice\<close> in round 0 whose self-parent is the hash of \<open>ev_hello\<close>.\<close>

definition ev_reply :: "string Event" where
  "ev_reply =
     \<lparr>Transactions = [''re''],
      SelfParent = ''dbcbb8838b4786ee99718a760f28e999672586096fab1105a6046e596ddf8752'',
      OtherParent = [],
      Creator = ''alice'', Timestamp = ''2024-01-01 00:00:01 +0000 UTC'',
      Signature = [], Hash = [], RoundCreated = 0, Famous = None,
      Witness = False, LamportTime = 0\<rparr>"

text \<open>The event that \<^verbatim>\<open>main\<close> creates for a line of input (lines 339 to 345).\<close>

definition ev_user :: "string Event" where
  "ev_user =
     \<lparr>Transactions = [''hi''], SelfParent = ''selfParentHash'',
      OtherParent = ''otherParentHash'', Creator = ''userID'',
      Timestamp = ''2024-01-01 00:00:02 +0000 UTC m=+1.000000000'',
      Signature = [], Hash = [], RoundCreated = 0, Famous = None,
      Witness = False, LamportTime = 0\<rparr>"

text \<open>
  \<open>ev_hello\<close> and \<open>ev_reply\<close> as \<^verbatim>\<open>AddEvent\<close> leaves them with the key 1 and the nonce 7
  (the signature \<open>(7, 8)\<close>), and the store of the key 1 after \<open>ev_hello\<close> at the address 0,
  after \<open>ev_hello\<close> twice, and after \<open>ev_hello\<close> and then \<open>ev_reply\<close> at the address 1.
\<close>

definition signed_hello :: "string Event" where
  "signed_hello =
     ev_hello\<lparr>Hash := ''dbcbb8838b4786ee99718a760f28e999672586096fab1105a6046e596ddf8752'',
              Signature := ''0708''\<rparr>"

definition signed_reply :: "string Event" where
  "signed_reply =
     ev_reply\<lparr>Hash := ''d7c51a1bc7a134d5ace88065bf7fb577330507f8380f3747018c86f7c31cc3dd'',
              Signature := ''0708''\<rparr>"

definition hg_hello :: "(nat, nat) Hashgraph" where
  "hg_hello =
     \<lparr>Events = [''dbcbb8838b4786ee99718a760f28e999672586096fab1105a6046e596ddf8752'' \<mapsto> 0],
      Rounds = [5 \<mapsto> [0]], privateKey = 1, publicKey = 1\<rparr>"

definition hg_hello_twice :: "(nat, nat) Hashgraph" where
  "hg_hello_twice =
     \<lparr>Events = [''dbcbb8838b4786ee99718a760f28e999672586096fab1105a6046e596ddf8752'' \<mapsto> 0],
      Rounds = [5 \<mapsto> [0, 0]], privateKey = 1, publicKey = 1\<rparr>"

definition hg_hello_reply :: "(nat, nat) Hashgraph" where
  "hg_hello_reply =
     \<lparr>Events = [''dbcbb8838b4786ee99718a760f28e999672586096fab1105a6046e596ddf8752'' \<mapsto> 0,
                ''d7c51a1bc7a134d5ace88065bf7fb577330507f8380f3747018c86f7c31cc3dd'' \<mapsto> 1],
      Rounds = [5 \<mapsto> [0], 0 \<mapsto> [1]], privateKey = 1, publicKey = 1\<rparr>"

text \<open>A message of the relay from one node for another.\<close>

definition msg_to_bob :: "unit Message" where
  "msg_to_bob =
     \<lparr>MsgType = ''event'', MsgSDP = [], MsgCandidate = [], MsgSelfParent = [],
      MsgOtherParent = [], MsgEvent = Some (), MsgTargetNode = ''bob''\<rparr>"

subsection \<open>Evaluating the library on literals\<close>

lemma wrap32_eval:
  "wrap32 s =
     (if s < 4294967296 then s
      else if s < 8589934592 then s - 4294967296 else s mod 4294967296)"
  unfolding wrap32_def
proof (cases "s < 4294967296")
  case True
  then show "s mod 4294967296 =
     (if s < 4294967296 then s
      else if s < 8589934592 then s - 4294967296 else s mod 4294967296)"
    by simp
next
  case False
  show "s mod 4294967296 =
     (if s < 4294967296 then s
      else if s < 8589934592 then s - 4294967296 else s mod 4294967296)"
  proof (cases "s < 8589934592")
    case True
    with False have "s mod 4294967296 = s - 4294967296"
      by (simp add: mod_if le_mod_geq)
    with False True show ?thesis by simp
  next
    case False
    then show ?thesis by simp
  qed
qed

lemma replicate_numeral:
  "replicate (numeral k) x = x # replicate (pred_numeral k) x"
  by (simp add: numeral_eq_Suc)

lemmas sha256_eval =
  sha256_def sha256_pad_def sha256_blocks.simps sha256_block_def sha256_K_def
  sha256_init_def sha256_next_def be32_bytes_def be64_bytes_def Ch_def Maj_def
  bsig0_def bsig1_def ssig0_def ssig1_def rotr32_def not32_def add32_def wrap32_eval
  replicate_numeral

lemma sha256_abc:
  "sha256 ''abc'' =
     map char_of
       [186 :: nat, 120, 22, 191, 143, 1, 207, 234, 65, 65, 64, 222, 93, 174, 34, 35,
        176, 3, 97, 163, 150, 23, 122, 156, 180, 16, 255, 97, 242, 0, 21, 173]"
  by (simp add: sha256_eval)

lemma hashEvent_ev_hello:
  "hashEvent demo_lib ev_hello =
     ''dbcbb8838b4786ee99718a760f28e999672586096fab1105a6046e596ddf8752''"
  by (simp add: hashEvent_def hashEvent_writes_def Write_def sha256_New_def Sum_nil_def
      demo_lib_def ev_hello_def hex_EncodeToString_def hex_byte_def hexdigit_def sha256_eval)

lemma hashEvent_ev_reply:
  "hashEvent demo_lib ev_reply =
     ''d7c51a1bc7a134d5ace88065bf7fb577330507f8380f3747018c86f7c31cc3dd''"
  by (simp add: hashEvent_def hashEvent_writes_def Write_def sha256_New_def Sum_nil_def
      demo_lib_def ev_reply_def hex_EncodeToString_def hex_byte_def hexdigit_def sha256_eval)

subsection \<open>Facts about the library\<close>

lemma foldl_Write: "foldl Write h xs = h @ concat xs"
  by (induction xs arbitrary: h) (simp_all add: Write_def)

lemma fromHexChar_hexdigit: "n < 16 \<Longrightarrow> fromHexChar (hexdigit n) = Some n"
proof -
  assume "n < 16"
  then have "n \<in> set [0..<16]" by simp
  then show ?thesis
    unfolding upt_rec_numeral
    by (auto simp: hexdigit_def fromHexChar_def upt_rec)
qed

lemma of_char_div_16: "(of_char b :: nat) div 16 < 16"
proof -
  have "(of_char b :: nat) < 16 * 16" by simp
  then show ?thesis by (rule less_mult_imp_div_less)
qed

lemma hex_DecodeString_hex_byte:
  "hex_DecodeString (hex_byte b @ rest) =
     (case hex_DecodeString rest of None \<Rightarrow> None | Some dst \<Rightarrow> Some (b # dst))"
  by (simp add: hex_byte_def fromHexChar_hexdigit of_char_div_16 split: option.splits)

lemma hex_Decode_Encode: "hex_DecodeString (hex_EncodeToString src) = Some src"
  by (induction src) (simp_all add: hex_EncodeToString_def hex_DecodeString_hex_byte)

lemma hex_EncodeToString_inj:
  "hex_EncodeToString a = hex_EncodeToString b \<longleftrightarrow> a = b"
proof
  assume "hex_EncodeToString a = hex_EncodeToString b"
  then have "hex_DecodeString (hex_EncodeToString a) = hex_DecodeString (hex_EncodeToString b)"
    by simp
  then show "a = b" by (simp add: hex_Decode_Encode)
qed simp

lemma SetBytes_snoc: "SetBytes (xs @ [b]) = SetBytes xs * 256 + of_char b"
  by (simp add: SetBytes_def)

lemma SetBytes_Bytes: "SetBytes (Bytes n) = n"
proof (induction n rule: Bytes.induct)
  case (1 n)
  show ?case
  proof (cases "n = 0")
    case True
    then show ?thesis by (simp add: Bytes.simps SetBytes_def)
  next
    case False
    with 1 show ?thesis
      by (subst Bytes.simps) (simp add: SetBytes_snoc)
  qed
qed

subsection \<open>Facts about the client\<close>

lemma hashEvent_writes_eq:
  "hashEvent_writes L e =
     Creator e @ SelfParent e @ OtherParent e @ time_String L (Timestamp e)
       @ concat (Transactions e)"
  by (simp add: hashEvent_writes_def foldl_Write Write_def sha256_New_def)

lemma hashEvent_eq_iff:
  "hashEvent L e' = hashEvent L e \<longleftrightarrow>
     sha256 (hashEvent_writes L e') = sha256 (hashEvent_writes L e)"
  by (simp add: hashEvent_def Sum_nil_def hex_EncodeToString_inj)

section \<open>The claims\<close>

subsection \<open>C4: the content hash\<close>

text \<open>
  C4. The hash of an event is the SHA-256 digest, in hexadecimal, of the bytes of
  \<^verbatim>\<open>Creator\<close>, \<^verbatim>\<open>SelfParent\<close>, \<^verbatim>\<open>OtherParent\<close>, the rendering of \<^verbatim>\<open>Timestamp\<close> and
  the transactions one after the other, in this order; so two events that agree on these
  five fields have the same hash, whatever their other fields are.
\<close>

theorem hashEvent_digest_of_fields:
  "hashEvent L e =
     hex_EncodeToString
       (sha256 (Creator e @ SelfParent e @ OtherParent e @ time_String L (Timestamp e)
          @ concat (Transactions e)))
   \<and> (Creator e' = Creator e \<and> SelfParent e' = SelfParent e
        \<and> OtherParent e' = OtherParent e \<and> Timestamp e' = Timestamp e
        \<and> Transactions e' = Transactions e
      \<longrightarrow> hashEvent L e' = hashEvent L e)"
  by (simp add: hashEvent_def Sum_nil_def hashEvent_writes_eq)

text \<open>
  At \<open>ev_hello\<close> and a copy of it with another signature, hash and round: the five fields
  agree, and so do the hashes.
\<close>

theorem hashEvent_digest_of_fields_witness:
  "Creator (ev_hello\<lparr>Signature := ''0708'', Hash := ''ff'', RoundCreated := 9\<rparr>)
     = Creator ev_hello
   \<and> SelfParent (ev_hello\<lparr>Signature := ''0708'', Hash := ''ff'', RoundCreated := 9\<rparr>)
     = SelfParent ev_hello
   \<and> OtherParent (ev_hello\<lparr>Signature := ''0708'', Hash := ''ff'', RoundCreated := 9\<rparr>)
     = OtherParent ev_hello
   \<and> Timestamp (ev_hello\<lparr>Signature := ''0708'', Hash := ''ff'', RoundCreated := 9\<rparr>)
     = Timestamp ev_hello
   \<and> Transactions (ev_hello\<lparr>Signature := ''0708'', Hash := ''ff'', RoundCreated := 9\<rparr>)
     = Transactions ev_hello
   \<and> hashEvent demo_lib (ev_hello\<lparr>Signature := ''0708'', Hash := ''ff'', RoundCreated := 9\<rparr>)
     = hashEvent demo_lib ev_hello
   \<and> hashEvent demo_lib ev_hello
     = hex_EncodeToString (sha256 ''alice2024-01-01 00:00:00 +0000 UTChello'')"
  using hashEvent_digest_of_fields
    [of demo_lib ev_hello "ev_hello\<lparr>Signature := ''0708'', Hash := ''ff'', RoundCreated := 9\<rparr>"]
  by (simp add: ev_hello_def demo_lib_def)

subsection \<open>C5: what a mutation does to the hash and to the verification\<close>

lemma hashEvent_writes_unhashed:
  "hashEvent_writes L (e\<lparr>Signature := sg\<rparr>) = hashEvent_writes L e"
  "hashEvent_writes L (e\<lparr>Hash := h\<rparr>) = hashEvent_writes L e"
  "hashEvent_writes L (e\<lparr>RoundCreated := r\<rparr>) = hashEvent_writes L e"
  "hashEvent_writes L (e\<lparr>Famous := fm\<rparr>) = hashEvent_writes L e"
  "hashEvent_writes L (e\<lparr>Witness := w\<rparr>) = hashEvent_writes L e"
  "hashEvent_writes L (e\<lparr>LamportTime := lt\<rparr>) = hashEvent_writes L e"
  by (simp_all add: hashEvent_writes_eq)

lemma hashEvent_unhashed:
  "hashEvent L (e\<lparr>Signature := sg\<rparr>) = hashEvent L e"
  "hashEvent L (e\<lparr>Hash := h\<rparr>) = hashEvent L e"
  "hashEvent L (e\<lparr>RoundCreated := r\<rparr>) = hashEvent L e"
  "hashEvent L (e\<lparr>Famous := fm\<rparr>) = hashEvent L e"
  "hashEvent L (e\<lparr>Witness := w\<rparr>) = hashEvent L e"
  "hashEvent L (e\<lparr>LamportTime := lt\<rparr>) = hashEvent L e"
  by (simp_all add: hashEvent_def hashEvent_writes_unhashed)

text \<open>
  C5, as the code has it. A change of \<^verbatim>\<open>Creator\<close>, of \<^verbatim>\<open>SelfParent\<close> or of
  \<^verbatim>\<open>OtherParent\<close> alone changes the bytes that are hashed; a change of \<^verbatim>\<open>Timestamp\<close>
  or of \<^verbatim>\<open>Transactions\<close> changes them when the rendering of the time, respectively the
  concatenation of the transactions, changes, and leaves the hash as it is otherwise.
  Whenever SHA-256 tells the two byte sequences apart, the hashes differ. The fields
  \<^verbatim>\<open>Signature\<close>, \<^verbatim>\<open>Hash\<close>, \<^verbatim>\<open>RoundCreated\<close>, \<^verbatim>\<open>Famous\<close>, \<^verbatim>\<open>Witness\<close> and
  \<^verbatim>\<open>LamportTime\<close> are not hashed. \<^verbatim>\<open>verifyEventSignature\<close> reads \<^verbatim>\<open>Hash\<close> and
  \<^verbatim>\<open>Signature\<close> only and never recomputes the hash: two events that agree on these two
  fields get the same verdict.
\<close>

theorem mutation_and_hash:
  "(c \<noteq> Creator e \<longrightarrow> hashEvent_writes L (e\<lparr>Creator := c\<rparr>) \<noteq> hashEvent_writes L e)
   \<and> (sp \<noteq> SelfParent e \<longrightarrow>
        hashEvent_writes L (e\<lparr>SelfParent := sp\<rparr>) \<noteq> hashEvent_writes L e)
   \<and> (op \<noteq> OtherParent e \<longrightarrow>
        hashEvent_writes L (e\<lparr>OtherParent := op\<rparr>) \<noteq> hashEvent_writes L e)
   \<and> (time_String L t \<noteq> time_String L (Timestamp e) \<longrightarrow>
        hashEvent_writes L (e\<lparr>Timestamp := t\<rparr>) \<noteq> hashEvent_writes L e)
   \<and> (concat txs \<noteq> concat (Transactions e) \<longrightarrow>
        hashEvent_writes L (e\<lparr>Transactions := txs\<rparr>) \<noteq> hashEvent_writes L e)
   \<and> (sha256 (hashEvent_writes L e') \<noteq> sha256 (hashEvent_writes L e) \<longrightarrow>
        hashEvent L e' \<noteq> hashEvent L e)
   \<and> (time_String L t' = time_String L (Timestamp e) \<longrightarrow>
        hashEvent L (e\<lparr>Timestamp := t'\<rparr>) = hashEvent L e)
   \<and> (concat txs' = concat (Transactions e) \<longrightarrow>
        hashEvent L (e\<lparr>Transactions := txs'\<rparr>) = hashEvent L e)
   \<and> hashEvent L (e\<lparr>Signature := sg\<rparr>) = hashEvent L e
   \<and> hashEvent L (e\<lparr>Hash := h\<rparr>) = hashEvent L e
   \<and> hashEvent L (e\<lparr>RoundCreated := r\<rparr>) = hashEvent L e
   \<and> hashEvent L (e\<lparr>Famous := fm\<rparr>) = hashEvent L e
   \<and> hashEvent L (e\<lparr>Witness := w\<rparr>) = hashEvent L e
   \<and> hashEvent L (e\<lparr>LamportTime := lt\<rparr>) = hashEvent L e
   \<and> (Hash e' = Hash e \<and> Signature e' = Signature e \<longrightarrow>
        verifyEventSignature L e' pk = verifyEventSignature L e pk)"
proof -
  have creator: "c \<noteq> Creator e \<longrightarrow>
      hashEvent_writes L (e\<lparr>Creator := c\<rparr>) \<noteq> hashEvent_writes L e"
    by (simp add: hashEvent_writes_eq)
  have self_parent: "sp \<noteq> SelfParent e \<longrightarrow>
      hashEvent_writes L (e\<lparr>SelfParent := sp\<rparr>) \<noteq> hashEvent_writes L e"
    by (simp add: hashEvent_writes_eq)
  have other_parent: "op \<noteq> OtherParent e \<longrightarrow>
      hashEvent_writes L (e\<lparr>OtherParent := op\<rparr>) \<noteq> hashEvent_writes L e"
    by (simp add: hashEvent_writes_eq)
  have timestamp: "time_String L t \<noteq> time_String L (Timestamp e) \<longrightarrow>
      hashEvent_writes L (e\<lparr>Timestamp := t\<rparr>) \<noteq> hashEvent_writes L e"
    by (simp add: hashEvent_writes_eq)
  have transactions: "concat txs \<noteq> concat (Transactions e) \<longrightarrow>
      hashEvent_writes L (e\<lparr>Transactions := txs\<rparr>) \<noteq> hashEvent_writes L e"
    by (simp add: hashEvent_writes_eq)
  have digest: "sha256 (hashEvent_writes L e') \<noteq> sha256 (hashEvent_writes L e) \<longrightarrow>
      hashEvent L e' \<noteq> hashEvent L e"
    by (simp add: hashEvent_eq_iff)
  have same_time: "time_String L t' = time_String L (Timestamp e) \<longrightarrow>
      hashEvent L (e\<lparr>Timestamp := t'\<rparr>) = hashEvent L e"
    by (simp add: hashEvent_def hashEvent_writes_eq)
  have same_concat: "concat txs' = concat (Transactions e) \<longrightarrow>
      hashEvent L (e\<lparr>Transactions := txs'\<rparr>) = hashEvent L e"
    by (simp add: hashEvent_def hashEvent_writes_eq)
  have verify: "Hash e' = Hash e \<and> Signature e' = Signature e \<longrightarrow>
      verifyEventSignature L e' pk = verifyEventSignature L e pk"
    by (simp add: verifyEventSignature_def split: option.splits)
  show ?thesis
    by (intro conjI creator self_parent other_parent timestamp transactions digest
        same_time same_concat hashEvent_unhashed verify)
qed

text \<open>
  Each hypothesis holds at \<open>ev_hello\<close> and a mutation of it; for the digests, at \<open>ev_hello\<close>
  and \<open>ev_reply\<close>, whose hashes were computed above.
\<close>

theorem mutation_and_hash_witness:
  "''bob'' \<noteq> Creator ev_hello
   \<and> hashEvent_writes demo_lib (ev_hello\<lparr>Creator := ''bob''\<rparr>)
       \<noteq> hashEvent_writes demo_lib ev_hello
   \<and> ''ab'' \<noteq> SelfParent ev_hello
   \<and> hashEvent_writes demo_lib (ev_hello\<lparr>SelfParent := ''ab''\<rparr>)
       \<noteq> hashEvent_writes demo_lib ev_hello
   \<and> ''cd'' \<noteq> OtherParent ev_hello
   \<and> hashEvent_writes demo_lib (ev_hello\<lparr>OtherParent := ''cd''\<rparr>)
       \<noteq> hashEvent_writes demo_lib ev_hello
   \<and> time_String demo_lib ''2024-01-01 00:00:01 +0000 UTC''
       \<noteq> time_String demo_lib (Timestamp ev_hello)
   \<and> hashEvent_writes demo_lib (ev_hello\<lparr>Timestamp := ''2024-01-01 00:00:01 +0000 UTC''\<rparr>)
       \<noteq> hashEvent_writes demo_lib ev_hello
   \<and> concat [''bye''] \<noteq> concat (Transactions ev_hello)
   \<and> hashEvent_writes demo_lib (ev_hello\<lparr>Transactions := [''bye'']\<rparr>)
       \<noteq> hashEvent_writes demo_lib ev_hello
   \<and> sha256 (hashEvent_writes demo_lib ev_reply)
       \<noteq> sha256 (hashEvent_writes demo_lib ev_hello)
   \<and> hashEvent demo_lib ev_reply \<noteq> hashEvent demo_lib ev_hello
   \<and> time_String demo_lib (Timestamp ev_hello) = time_String demo_lib (Timestamp ev_hello)
   \<and> concat [''he'', ''llo''] = concat (Transactions ev_hello)
   \<and> hashEvent demo_lib (ev_hello\<lparr>Transactions := [''he'', ''llo'']\<rparr>)
       = hashEvent demo_lib ev_hello
   \<and> Hash ev_reply = Hash ev_hello \<and> Signature ev_reply = Signature ev_hello
   \<and> verifyEventSignature demo_lib ev_reply 1 = verifyEventSignature demo_lib ev_hello 1"
proof -
  have "hashEvent demo_lib ev_reply \<noteq> hashEvent demo_lib ev_hello"
    by (simp add: hashEvent_ev_hello hashEvent_ev_reply)
  then have digests:
    "sha256 (hashEvent_writes demo_lib ev_reply) \<noteq> sha256 (hashEvent_writes demo_lib ev_hello)"
    by (simp add: hashEvent_eq_iff)
  have fields:
    "''bob'' \<noteq> Creator ev_hello" "''ab'' \<noteq> SelfParent ev_hello"
    "''cd'' \<noteq> OtherParent ev_hello"
    "time_String demo_lib ''2024-01-01 00:00:01 +0000 UTC''
       \<noteq> time_String demo_lib (Timestamp ev_hello)"
    "concat [''bye''] \<noteq> concat (Transactions ev_hello)"
    "concat [''he'', ''llo''] = concat (Transactions ev_hello)"
    "Hash ev_reply = Hash ev_hello" "Signature ev_reply = Signature ev_hello"
    by (simp_all add: ev_hello_def ev_reply_def demo_lib_def)
  from digests fields
    mutation_and_hash [where L = demo_lib and e = ev_hello and e' = ev_reply
      and c = "''bob''" and sp = "''ab''" and op = "''cd''"
      and t = "''2024-01-01 00:00:01 +0000 UTC''" and t' = "Timestamp ev_hello"
      and txs = "[''bye'']" and txs' = "[''he'', ''llo'']" and pk = 1]
  show ?thesis by simp
qed

text \<open>
  C5 as stated fails: the transaction list \<open>[hello]\<close> of a signed event is changed to
  \<open>[he, llo]\<close>; the recomputed hash is the same, and the signature still verifies.
\<close>

theorem retransmitted_transactions_same_hash:
  "Transactions (ev_hello\<lparr>Transactions := [''he'', ''llo''], Signature := ''0708''\<rparr>)
     \<noteq> Transactions (ev_hello\<lparr>Signature := ''0708''\<rparr>)
   \<and> hashEvent demo_lib (ev_hello\<lparr>Transactions := [''he'', ''llo''], Signature := ''0708''\<rparr>)
     = hashEvent demo_lib (ev_hello\<lparr>Signature := ''0708''\<rparr>)
   \<and> verifyEventSignature demo_lib (ev_hello\<lparr>Signature := ''0708''\<rparr>) 1
   \<and> verifyEventSignature demo_lib
        (ev_hello\<lparr>Transactions := [''he'', ''llo''], Signature := ''0708''\<rparr>) 1"
  by (simp add: hashEvent_def hashEvent_writes_eq ev_hello_def verifyEventSignature_def
      demo_lib_def fromHexChar_def SetBytes_def)

subsection \<open>C8: what the relay forwards\<close>

text \<open>
  C8, as the code has it. The relay writes an event message to exactly one connection,
  the one registered for \<^verbatim>\<open>msg.TargetNode\<close>, when the target is not the sender and is
  registered; otherwise to none. The error that \<^verbatim>\<open>AddEvent\<close> returned is logged and
  decides nothing.
\<close>

theorem relay_forwards_whatever_AddEvent_returns:
  "forwarded (signalHandler_event sessions nodeID msg addErr writeErr) =
     (if MsgTargetNode msg = nodeID then []
      else (case sessions (MsgTargetNode msg) of
              None \<Rightarrow> []
            | Some targetConn \<Rightarrow> [targetConn]))"
  by (simp add: signalHandler_event_def split: option.splits)

text \<open>
  With and without an error of \<^verbatim>\<open>AddEvent\<close> the message for \<open>bob\<close> goes to \<open>bob\<close>'s
  connection; a message of \<open>bob\<close> for himself and one for a node that is not registered
  go nowhere.
\<close>

theorem relay_forwards_whatever_AddEvent_returns_witness:
  "forwarded (signalHandler_event [''alice'' \<mapsto> 1 :: nat, ''bob'' \<mapsto> 2] ''alice'' msg_to_bob
      None None) = [2]
   \<and> forwarded (signalHandler_event [''alice'' \<mapsto> 1 :: nat, ''bob'' \<mapsto> 2] ''alice'' msg_to_bob
      (Some ''hash mismatch'') (Some ''broken pipe'')) = [2]
   \<and> forwarded (signalHandler_event [''alice'' \<mapsto> 1 :: nat, ''bob'' \<mapsto> 2] ''bob'' msg_to_bob
      None None) = []
   \<and> forwarded (signalHandler_event [''alice'' \<mapsto> 1 :: nat] ''alice'' msg_to_bob
      None None) = []"
  using relay_forwards_whatever_AddEvent_returns
      [of "[''alice'' \<mapsto> 1 :: nat, ''bob'' \<mapsto> 2]" "''alice''" msg_to_bob None None]
    relay_forwards_whatever_AddEvent_returns
      [of "[''alice'' \<mapsto> 1 :: nat, ''bob'' \<mapsto> 2]" "''alice''" msg_to_bob
          "Some ''hash mismatch''" "Some ''broken pipe''"]
    relay_forwards_whatever_AddEvent_returns
      [of "[''alice'' \<mapsto> 1 :: nat, ''bob'' \<mapsto> 2]" "''bob''" msg_to_bob None None]
    relay_forwards_whatever_AddEvent_returns
      [of "[''alice'' \<mapsto> 1 :: nat]" "''alice''" msg_to_bob None None]
  by (simp add: msg_to_bob_def)

text \<open>
  C8 as stated fails: \<^verbatim>\<open>AddEvent\<close> rejects the event, the relay logs the error and
  forwards the message all the same.
\<close>

theorem rejected_event_is_forwarded:
  "signalHandler_event [''alice'' \<mapsto> 1 :: nat, ''bob'' \<mapsto> 2] ''alice'' msg_to_bob
      (Some ''invalid signature'') None
     = [Log ''Received event'',
        Log ''Failed to add event to Hashgraph: invalid signature'',
        WriteJSON 2 msg_to_bob]
   \<and> forwarded (signalHandler_event [''alice'' \<mapsto> 1 :: nat, ''bob'' \<mapsto> 2] ''alice''
        msg_to_bob (Some ''invalid signature'') None) = [2]"
  by (simp add: signalHandler_event_def msg_to_bob_def)

subsection \<open>C10: signing, then verifying\<close>

text \<open>
  What verification is run on after signing: the bytes of \<open>r\<close> and \<open>s\<close> are cut in the
  middle of their concatenation. The cut is between them exactly when \<open>s\<close> has as many
  bytes as \<open>r\<close> or one more.
\<close>

lemma verifyEventSignature_signed:
  "verifyEventSignature L (e\<lparr>Signature := hex_EncodeToString (Bytes r @ Bytes s)\<rparr>) p =
     ecdsa_Verify L p (sha256 (Hash e))
       (SetBytes (take ((length (Bytes r) + length (Bytes s)) div 2) (Bytes r @ Bytes s)))
       (SetBytes (drop ((length (Bytes r) + length (Bytes s)) div 2) (Bytes r @ Bytes s)))"
  by (simp add: verifyEventSignature_def hex_Decode_Encode)

lemma verifyEventSignature_signed_fitting:
  assumes "length (Bytes r) \<le> length (Bytes s)" and "length (Bytes s) \<le> length (Bytes r) + 1"
  shows "verifyEventSignature L (e\<lparr>Signature := hex_EncodeToString (Bytes r @ Bytes s)\<rparr>) p =
     ecdsa_Verify L p (sha256 (Hash e)) r s"
proof -
  from assms have "(length (Bytes r) + length (Bytes s)) div 2 = length (Bytes r)"
    by linarith
  then show ?thesis
    by (simp add: verifyEventSignature_signed SetBytes_Bytes)
qed

text \<open>
  C10 fails on the code where \<open>r\<close> has more bytes than \<open>s\<close>: the signature \<open>(256, 6)\<close>
  is valid, it is stored as the three bytes \<open>01 00 06\<close>, and verification reads them as
  \<open>(1, 6)\<close> and fails.
\<close>

theorem sign_then_verify_fails:
  "signEvent demo_lib 256
      (ev_hello\<lparr>Hash := ''dbcbb8838b4786ee99718a760f28e999672586096fab1105a6046e596ddf8752''\<rparr>) 1
     = Inr (ev_hello\<lparr>Hash := ''dbcbb8838b4786ee99718a760f28e999672586096fab1105a6046e596ddf8752'',
                     Signature := ''010006''\<rparr>)
   \<and> ecdsa_Sign demo_lib 256 1
         (sha256 ''dbcbb8838b4786ee99718a760f28e999672586096fab1105a6046e596ddf8752'')
       = Inr (256, 6)
   \<and> ecdsa_Verify demo_lib 1
         (sha256 ''dbcbb8838b4786ee99718a760f28e999672586096fab1105a6046e596ddf8752'') 256 6
   \<and> \<not> verifyEventSignature demo_lib
         (ev_hello\<lparr>Hash := ''dbcbb8838b4786ee99718a760f28e999672586096fab1105a6046e596ddf8752'',
                   Signature := ''010006''\<rparr>) 1"
  by (simp add: signEvent_def verifyEventSignature_def demo_lib_def ev_hello_def Bytes.simps
      hex_EncodeToString_def hex_byte_def hexdigit_def fromHexChar_def SetBytes_def)

subsection \<open>Facts about \<^verbatim>\<open>AddEvent\<close>\<close>

lemma AddEvent_nil: "\<sigma> p = None \<Longrightarrow> AddEvent L g hg p \<sigma> = Inl NilPointerDereference"
  by (simp add: AddEvent_def)

lemma AddEvent_sign_error:
  "\<sigma> p = Some e \<Longrightarrow> ecdsa_Sign L g (privateKey hg) (sha256 (hashEvent L e)) = Inl x
     \<Longrightarrow> AddEvent L g hg p \<sigma> = Inr (Some x, hg, \<sigma>(p \<mapsto> e\<lparr>Hash := hashEvent L e\<rparr>))"
  by (simp add: AddEvent_def signEvent_def)

lemma AddEvent_signed:
  "\<sigma> p = Some e \<Longrightarrow> ecdsa_Sign L g (privateKey hg) (sha256 (hashEvent L e)) = Inr (r, s)
     \<Longrightarrow> AddEvent L g hg p \<sigma> =
          Inr (None,
               hg\<lparr>Events := (Events hg)(hashEvent L e \<mapsto> p),
                  Rounds := (Rounds hg)(RoundCreated e \<mapsto>
                              round_bucket hg (RoundCreated e) @ [p])\<rparr>,
               \<sigma>(p \<mapsto> e\<lparr>Hash := hashEvent L e,
                         Signature := hex_EncodeToString (Bytes r @ Bytes s)\<rparr>))"
  by (simp add: AddEvent_def signEvent_def)

lemma AddEvent_returns:
  assumes "AddEvent L g hg p \<sigma> = Inr (err, hg', \<sigma>')"
  obtains (sign_error) e x where "\<sigma> p = Some e"
      "ecdsa_Sign L g (privateKey hg) (sha256 (hashEvent L e)) = Inl x"
      "err = Some x" "hg' = hg" "\<sigma>' = \<sigma>(p \<mapsto> e\<lparr>Hash := hashEvent L e\<rparr>)"
    | (signed) e r s where "\<sigma> p = Some e"
      "ecdsa_Sign L g (privateKey hg) (sha256 (hashEvent L e)) = Inr (r, s)"
      "err = None"
      "hg' = hg\<lparr>Events := (Events hg)(hashEvent L e \<mapsto> p),
                 Rounds := (Rounds hg)(RoundCreated e \<mapsto>
                             round_bucket hg (RoundCreated e) @ [p])\<rparr>"
      "\<sigma>' = \<sigma>(p \<mapsto> e\<lparr>Hash := hashEvent L e,
                        Signature := hex_EncodeToString (Bytes r @ Bytes s)\<rparr>)"
proof (cases "\<sigma> p")
  case None
  with assms show ?thesis by (simp add: AddEvent_def)
next
  case (Some e)
  show ?thesis
  proof (cases "ecdsa_Sign L g (privateKey hg) (sha256 (hashEvent L e))")
    case (Inl x)
    from assms have "err = Some x \<and> hg' = hg \<and> \<sigma>' = \<sigma>(p \<mapsto> e\<lparr>Hash := hashEvent L e\<rparr>)"
      unfolding AddEvent_sign_error [where \<sigma> = \<sigma> and p = p, OF Some Inl] by simp
    with Some Inl show ?thesis by (intro sign_error [of e x]) simp_all
  next
    case (Inr rs)
    obtain r s where rs: "rs = (r, s)" by (cases rs)
    from Inr rs have sg: "ecdsa_Sign L g (privateKey hg) (sha256 (hashEvent L e)) = Inr (r, s)"
      by simp
    from assms have "err = None
        \<and> hg' = hg\<lparr>Events := (Events hg)(hashEvent L e \<mapsto> p),
                      Rounds := (Rounds hg)(RoundCreated e \<mapsto>
                                  round_bucket hg (RoundCreated e) @ [p])\<rparr>
        \<and> \<sigma>' = \<sigma>(p \<mapsto> e\<lparr>Hash := hashEvent L e,
                            Signature := hex_EncodeToString (Bytes r @ Bytes s)\<rparr>)"
      unfolding AddEvent_signed [where \<sigma> = \<sigma> and p = p, OF Some sg] by simp
    with Some sg show ?thesis by (intro signed [of e r s]) simp_all
  qed
qed

lemma store_inv_NewHashgraph: "store_inv L (NewHashgraph privKey pubKey) \<sigma>"
  by (simp add: store_inv_def NewHashgraph_def)

lemma store_inv_alloc:
  assumes "store_inv L hg \<sigma>" and "\<sigma> a = None"
  shows "store_inv L hg (\<sigma>(a \<mapsto> e))"
  unfolding store_inv_def
proof (intro allI impI)
  fix k b
  assume "Events hg k = Some b"
  with assms(1) obtain e' where e': "\<sigma> b = Some e'" "Hash e' = k" "hashEvent L e' = k"
    unfolding store_inv_def by blast
  with assms(2) have "b \<noteq> a" by auto
  with e' show "\<exists>e'. (\<sigma>(a \<mapsto> e)) b = Some e' \<and> Hash e' = k \<and> hashEvent L e' = k"
    by simp
qed

lemma store_inv_AddEvent:
  assumes inv: "store_inv L hg \<sigma>" and add: "AddEvent L g hg p \<sigma> = Inr (err, hg', \<sigma>')"
  shows "store_inv L hg' \<sigma>'"
  using add
proof (cases rule: AddEvent_returns)
  case (sign_error e x)
  show ?thesis
    unfolding store_inv_def
  proof (intro allI impI)
    fix k a
    assume "Events hg' k = Some a"
    with sign_error have "Events hg k = Some a" by simp
    with inv obtain e0 where e0: "\<sigma> a = Some e0" "Hash e0 = k" "hashEvent L e0 = k"
      unfolding store_inv_def by blast
    show "\<exists>e'. \<sigma>' a = Some e' \<and> Hash e' = k \<and> hashEvent L e' = k"
    proof (cases "a = p")
      case True
      with e0 sign_error have "e0 = e" by simp
      with True e0 sign_error show ?thesis by (simp add: hashEvent_unhashed)
    next
      case False
      with e0 sign_error show ?thesis by simp
    qed
  qed
next
  case (signed e r s)
  show ?thesis
    unfolding store_inv_def
  proof (intro allI impI)
    fix k a
    assume k: "Events hg' k = Some a"
    show "\<exists>e'. \<sigma>' a = Some e' \<and> Hash e' = k \<and> hashEvent L e' = k"
    proof (cases "k = hashEvent L e")
      case True
      with k signed have "a = p" by simp
      with True signed show ?thesis by (simp add: hashEvent_unhashed)
    next
      case False
      with k signed have "Events hg k = Some a" by simp
      with inv obtain e0 where e0: "\<sigma> a = Some e0" "Hash e0 = k" "hashEvent L e0 = k"
        unfolding store_inv_def by blast
      with False signed have "a \<noteq> p" by auto
      with e0 signed show ?thesis by simp
    qed
  qed
qed

lemma reachable_store_inv: "reachable L hg \<sigma> \<Longrightarrow> store_inv L hg \<sigma>"
proof (induction rule: reachable.induct)
  case (new privKey pubKey \<sigma>)
  show ?case by (rule store_inv_NewHashgraph)
next
  case (alloc hg \<sigma> a e)
  then show ?case by (intro store_inv_alloc)
next
  case (add hg \<sigma> g p err hg' \<sigma>')
  then show ?case by (intro store_inv_AddEvent [of L hg \<sigma> g p err hg' \<sigma>'])
qed

lemma AddEvent_supplied_hash:
  "AddEvent L g hg p (\<sigma>(p \<mapsto> e\<lparr>Hash := h\<rparr>)) = AddEvent L g hg p (\<sigma>(p \<mapsto> e))"
  by (simp add: AddEvent_def signEvent_def hashEvent_unhashed split: sum.splits)

lemma AddEvent_supplied_signature:
  assumes "AddEvent L g hg p (\<sigma>(p \<mapsto> e)) = Inr (None, hg', \<sigma>')"
  shows "AddEvent L g hg p (\<sigma>(p \<mapsto> e\<lparr>Hash := h, Signature := sg\<rparr>)) = Inr (None, hg', \<sigma>')"
  using assms
proof (cases rule: AddEvent_returns)
  case (sign_error e0 x)
  then show ?thesis by simp
next
  case (signed e0 r s)
  then have e0: "e0 = e" by simp
  have "(\<sigma>(p \<mapsto> e\<lparr>Hash := h, Signature := sg\<rparr>)) p = Some (e\<lparr>Hash := h, Signature := sg\<rparr>)"
    by simp
  moreover from signed e0
  have "ecdsa_Sign L g (privateKey hg)
          (sha256 (hashEvent L (e\<lparr>Hash := h, Signature := sg\<rparr>))) = Inr (r, s)"
    by (simp add: hashEvent_unhashed)
  ultimately have "AddEvent L g hg p (\<sigma>(p \<mapsto> e\<lparr>Hash := h, Signature := sg\<rparr>)) =
      Inr (None,
           hg\<lparr>Events := (Events hg)(hashEvent L (e\<lparr>Hash := h, Signature := sg\<rparr>) \<mapsto> p),
              Rounds := (Rounds hg)(RoundCreated (e\<lparr>Hash := h, Signature := sg\<rparr>) \<mapsto>
                round_bucket hg (RoundCreated (e\<lparr>Hash := h, Signature := sg\<rparr>)) @ [p])\<rparr>,
           (\<sigma>(p \<mapsto> e\<lparr>Hash := h, Signature := sg\<rparr>))
             (p \<mapsto> e\<lparr>Hash := h, Signature := sg,
                      Hash := hashEvent L (e\<lparr>Hash := h, Signature := sg\<rparr>),
                      Signature := hex_EncodeToString (Bytes r @ Bytes s)\<rparr>))"
    by (rule AddEvent_signed)
  with signed e0 show ?thesis by (simp add: hashEvent_unhashed)
qed

subsection \<open>Running \<^verbatim>\<open>AddEvent\<close> on the concrete inputs\<close>

lemma demo_lib_simps:
  "time_String demo_lib t = t"
  "ecdsa_Sign demo_lib g k h =
     (if g = 0 then Inl ''no entropy'' else Inr (g, (g * k) mod 251 + 1))"
  "ecdsa_Verify demo_lib p h r s \<longleftrightarrow> 0 < r \<and> s = (r * p) mod 251 + 1"
  by (simp_all add: demo_lib_def)

lemma ev_rounds: "RoundCreated ev_hello = 5" "RoundCreated ev_reply = 0"
  by (simp_all add: ev_hello_def ev_reply_def)

lemma hex_0708: "hex_EncodeToString (Bytes 7 @ Bytes 8) = ''0708''"
  by (simp add: Bytes.simps hex_EncodeToString_def hex_byte_def hexdigit_def)

lemma AddEvent_hello:
  "AddEvent demo_lib 7 (NewHashgraph 1 1) 0 [0 \<mapsto> ev_hello]
     = Inr (None, hg_hello, [0 \<mapsto> signed_hello])"
  by (simp add: AddEvent_def signEvent_def demo_lib_simps hashEvent_ev_hello hex_0708 ev_rounds
      NewHashgraph_def round_bucket_def hg_hello_def signed_hello_def)

lemma AddEvent_hello_supplied:
  "AddEvent demo_lib 7 (NewHashgraph 1 1) 0 [0 \<mapsto> ev_hello\<lparr>Hash := h, Signature := sg\<rparr>]
     = Inr (None, hg_hello, [0 \<mapsto> signed_hello])"
  using AddEvent_hello by (rule AddEvent_supplied_signature)

lemma AddEvent_hello_again:
  "AddEvent demo_lib 7 hg_hello 0 [0 \<mapsto> signed_hello]
     = Inr (None, hg_hello_twice, [0 \<mapsto> signed_hello])"
  by (simp add: AddEvent_def signEvent_def demo_lib_simps hashEvent_ev_hello hex_0708 ev_rounds
      hashEvent_unhashed round_bucket_def hg_hello_def hg_hello_twice_def signed_hello_def)

lemma AddEvent_reply:
  "AddEvent demo_lib 7 hg_hello 1 [0 \<mapsto> signed_hello, 1 \<mapsto> ev_reply]
     = Inr (None, hg_hello_reply, [0 \<mapsto> signed_hello, 1 \<mapsto> signed_reply])"
  by (simp add: AddEvent_def signEvent_def demo_lib_simps hashEvent_ev_reply hex_0708 ev_rounds
      round_bucket_def hg_hello_def hg_hello_reply_def signed_reply_def)

subsection \<open>C9: the invariant of the store\<close>

text \<open>
  C9. A new store satisfies the invariant, every store the program reaches satisfies it,
  and \<^verbatim>\<open>AddEvent\<close> preserves it whatever it returns. When \<^verbatim>\<open>AddEvent\<close> returns
  \<^verbatim>\<open>nil\<close>, the event is stored under the recomputed hash, with \<^verbatim>\<open>Hash\<close> overwritten by
  it and \<^verbatim>\<open>Signature\<close> by the signature made with the store's own private key; the hash
  and the signature that the caller supplied are discarded: with any others the result is
  the same.
\<close>

theorem store_inv_established_and_preserved:
  "store_inv L (NewHashgraph privKey pubKey) \<sigma>0
   \<and> (reachable L hg \<sigma> \<longrightarrow> store_inv L hg \<sigma>)
   \<and> (store_inv L hg \<sigma> \<and> AddEvent L g hg p \<sigma> = Inr (err, hg', \<sigma>')
        \<longrightarrow> store_inv L hg' \<sigma>')
   \<and> (\<sigma> p = Some e \<and> AddEvent L g hg p \<sigma> = Inr (None, hg', \<sigma>')
        \<longrightarrow> (\<exists>r s. ecdsa_Sign L g (privateKey hg) (sha256 (hashEvent L e)) = Inr (r, s)
                    \<and> \<sigma>' p = Some (e\<lparr>Hash := hashEvent L e,
                                        Signature := hex_EncodeToString (Bytes r @ Bytes s)\<rparr>))
            \<and> Events hg' = (Events hg)(hashEvent L e \<mapsto> p))
   \<and> (\<sigma> p = Some e \<and> AddEvent L g hg p \<sigma> = Inr (None, hg', \<sigma>')
        \<longrightarrow> AddEvent L g hg p (\<sigma>(p \<mapsto> e\<lparr>Hash := h, Signature := sg\<rparr>))
            = Inr (None, hg', \<sigma>'))"
proof -
  have established: "\<sigma> p = Some e \<and> AddEvent L g hg p \<sigma> = Inr (None, hg', \<sigma>')
      \<longrightarrow> (\<exists>r s. ecdsa_Sign L g (privateKey hg) (sha256 (hashEvent L e)) = Inr (r, s)
                  \<and> \<sigma>' p = Some (e\<lparr>Hash := hashEvent L e,
                                      Signature := hex_EncodeToString (Bytes r @ Bytes s)\<rparr>))
          \<and> Events hg' = (Events hg)(hashEvent L e \<mapsto> p)"
  proof
    assume a: "\<sigma> p = Some e \<and> AddEvent L g hg p \<sigma> = Inr (None, hg', \<sigma>')"
    then have "AddEvent L g hg p \<sigma> = Inr (None, hg', \<sigma>')" by simp
    then show "(\<exists>r s. ecdsa_Sign L g (privateKey hg) (sha256 (hashEvent L e)) = Inr (r, s)
                  \<and> \<sigma>' p = Some (e\<lparr>Hash := hashEvent L e,
                                      Signature := hex_EncodeToString (Bytes r @ Bytes s)\<rparr>))
          \<and> Events hg' = (Events hg)(hashEvent L e \<mapsto> p)"
    proof (cases rule: AddEvent_returns)
      case (sign_error e0 x)
      then show ?thesis by simp
    next
      case (signed e0 r s)
      with a have "e0 = e" by simp
      with signed show ?thesis by auto
    qed
  qed
  have discarded: "\<sigma> p = Some e \<and> AddEvent L g hg p \<sigma> = Inr (None, hg', \<sigma>')
      \<longrightarrow> AddEvent L g hg p (\<sigma>(p \<mapsto> e\<lparr>Hash := h, Signature := sg\<rparr>)) = Inr (None, hg', \<sigma>')"
  proof
    assume a: "\<sigma> p = Some e \<and> AddEvent L g hg p \<sigma> = Inr (None, hg', \<sigma>')"
    then have "\<sigma>(p \<mapsto> e) = \<sigma>" by (simp add: fun_upd_idem)
    with a have "AddEvent L g hg p (\<sigma>(p \<mapsto> e)) = Inr (None, hg', \<sigma>')" by simp
    then show "AddEvent L g hg p (\<sigma>(p \<mapsto> e\<lparr>Hash := h, Signature := sg\<rparr>)) = Inr (None, hg', \<sigma>')"
      by (rule AddEvent_supplied_signature)
  qed
  have preserved: "store_inv L hg \<sigma> \<and> AddEvent L g hg p \<sigma> = Inr (err, hg', \<sigma>')
      \<longrightarrow> store_inv L hg' \<sigma>'"
    using store_inv_AddEvent [of L hg \<sigma> g p err hg' \<sigma>'] by blast
  have everywhere: "reachable L hg \<sigma> \<longrightarrow> store_inv L hg \<sigma>"
    using reachable_store_inv [of L hg \<sigma>] by blast
  show ?thesis
    by (intro conjI store_inv_NewHashgraph everywhere preserved established discarded)
qed

text \<open>
  At the new store of the key 1 and \<open>ev_hello\<close> at the address 0: \<^verbatim>\<open>AddEvent\<close> with the
  nonce 7 yields \<open>hg_hello\<close>, which is reachable and satisfies the invariant, and it
  yields the same from an event that came with the hash \<open>deadbeef\<close> and the signature
  \<open>zz\<close>.
\<close>

theorem store_inv_established_and_preserved_witness:
  "store_inv demo_lib (NewHashgraph 1 1) [0 \<mapsto> ev_hello]
   \<and> reachable demo_lib hg_hello [0 \<mapsto> signed_hello]
   \<and> AddEvent demo_lib 7 (NewHashgraph 1 1) 0 [0 \<mapsto> ev_hello]
       = Inr (None, hg_hello, [0 \<mapsto> signed_hello])
   \<and> store_inv demo_lib hg_hello [0 \<mapsto> signed_hello]
   \<and> ecdsa_Sign demo_lib 7 (privateKey (NewHashgraph 1 1 :: (nat, nat) Hashgraph))
         (sha256 (hashEvent demo_lib ev_hello)) = Inr (7, 8)
   \<and> signed_hello = ev_hello\<lparr>Hash := hashEvent demo_lib ev_hello,
                                Signature := hex_EncodeToString (Bytes 7 @ Bytes 8)\<rparr>
   \<and> Events hg_hello = [hashEvent demo_lib ev_hello \<mapsto> 0]
   \<and> AddEvent demo_lib 7 (NewHashgraph 1 1) 0
         [0 \<mapsto> ev_hello\<lparr>Hash := ''deadbeef'', Signature := ''zz''\<rparr>]
       = Inr (None, hg_hello, [0 \<mapsto> signed_hello])"
proof -
  have run: "AddEvent demo_lib 7 (NewHashgraph 1 1) 0 [0 \<mapsto> ev_hello]
      = Inr (None, hg_hello, [0 \<mapsto> signed_hello])"
    by (rule AddEvent_hello)
  have "reachable demo_lib (NewHashgraph (1::nat) (1::nat)) [0 \<mapsto> ev_hello]"
    by (rule reachable.new)
  then have reach: "reachable demo_lib hg_hello [0 \<mapsto> signed_hello]"
    using run by (rule reachable.add)
  have start: "store_inv demo_lib (NewHashgraph (1::nat) (1::nat)) [0 \<mapsto> ev_hello]"
    by (simp add: store_inv_def NewHashgraph_def)
  have at: "[0 \<mapsto> ev_hello] (0::nat) = Some ev_hello"
    by simp
  from start reach run at
    store_inv_established_and_preserved
      [where L = demo_lib and privKey = "1::nat" and pubKey = "1::nat"
        and \<sigma>0 = "[0 \<mapsto> ev_hello]" and hg = "NewHashgraph (1::nat) (1::nat)"
        and \<sigma> = "[0 \<mapsto> ev_hello]" and g = 7 and p = 0 and err = None
        and hg' = hg_hello and \<sigma>' = "[0 \<mapsto> signed_hello]" and e = ev_hello
        and h = "''deadbeef''" and sg = "''zz''"]
    store_inv_established_and_preserved
      [where L = demo_lib and hg = hg_hello and \<sigma> = "[0 \<mapsto> signed_hello]"]
  show ?thesis
    by (simp add: demo_lib_simps NewHashgraph_def hashEvent_ev_hello hex_0708 ev_rounds
        signed_hello_def hg_hello_def)
qed

subsection \<open>C2: the supplied hash and signature\<close>

text \<open>
  C2, as the code has it. \<^verbatim>\<open>AddEvent\<close> recomputes the hash and overwrites the supplied
  \<^verbatim>\<open>Hash\<close> with it without comparing the two: the supplied hash has no influence on the
  result, and on \<^verbatim>\<open>nil\<close> the event is stored under the recomputed hash. It verifies no
  signature: it returns \<^verbatim>\<open>nil\<close> whenever \<^verbatim>\<open>ecdsa.Sign\<close> succeeds. The only error it
  returns is the error of \<^verbatim>\<open>ecdsa.Sign\<close>, and then \<^verbatim>\<open>Events\<close> and \<^verbatim>\<open>Rounds\<close> are
  unchanged.
\<close>

theorem AddEvent_overwrites_supplied_hash:
  "AddEvent L g hg p (\<sigma>(p \<mapsto> e\<lparr>Hash := h\<rparr>)) = AddEvent L g hg p (\<sigma>(p \<mapsto> e))
   \<and> (\<sigma> p = Some e \<and> AddEvent L g hg p \<sigma> = Inr (None, hg', \<sigma>')
        \<longrightarrow> Events hg' (hashEvent L e) = Some p
            \<and> map_option Hash (\<sigma>' p) = Some (hashEvent L e))
   \<and> (\<sigma> p = Some e \<and> AddEvent L g hg p \<sigma> = Inr (Some x, hg', \<sigma>')
        \<longrightarrow> ecdsa_Sign L g (privateKey hg) (sha256 (hashEvent L e)) = Inl x \<and> hg' = hg)
   \<and> (\<sigma> p = Some e
        \<and> ecdsa_Sign L g (privateKey hg) (sha256 (hashEvent L e)) = Inr (r, s)
        \<longrightarrow> (\<exists>hg' \<sigma>'. AddEvent L g hg p \<sigma> = Inr (None, hg', \<sigma>')))"
proof -
  have stored: "\<sigma> p = Some e \<and> AddEvent L g hg p \<sigma> = Inr (None, hg', \<sigma>')
      \<longrightarrow> Events hg' (hashEvent L e) = Some p
          \<and> map_option Hash (\<sigma>' p) = Some (hashEvent L e)"
  proof
    assume a: "\<sigma> p = Some e \<and> AddEvent L g hg p \<sigma> = Inr (None, hg', \<sigma>')"
    then have "AddEvent L g hg p \<sigma> = Inr (None, hg', \<sigma>')" by simp
    then show "Events hg' (hashEvent L e) = Some p
        \<and> map_option Hash (\<sigma>' p) = Some (hashEvent L e)"
    proof (cases rule: AddEvent_returns)
      case (sign_error e0 x0)
      then show ?thesis by simp
    next
      case (signed e0 r0 s0)
      with a have "e0 = e" by simp
      with signed show ?thesis by simp
    qed
  qed
  have failed: "\<sigma> p = Some e \<and> AddEvent L g hg p \<sigma> = Inr (Some x, hg', \<sigma>')
      \<longrightarrow> ecdsa_Sign L g (privateKey hg) (sha256 (hashEvent L e)) = Inl x \<and> hg' = hg"
  proof
    assume a: "\<sigma> p = Some e \<and> AddEvent L g hg p \<sigma> = Inr (Some x, hg', \<sigma>')"
    then have "AddEvent L g hg p \<sigma> = Inr (Some x, hg', \<sigma>')" by simp
    then show "ecdsa_Sign L g (privateKey hg) (sha256 (hashEvent L e)) = Inl x \<and> hg' = hg"
    proof (cases rule: AddEvent_returns)
      case (sign_error e0 x0)
      with a have "e0 = e" by simp
      with sign_error show ?thesis by simp
    next
      case (signed e0 r0 s0)
      then show ?thesis by simp
    qed
  qed
  have succeeds: "\<sigma> p = Some e
      \<and> ecdsa_Sign L g (privateKey hg) (sha256 (hashEvent L e)) = Inr (r, s)
      \<longrightarrow> (\<exists>hg' \<sigma>'. AddEvent L g hg p \<sigma> = Inr (None, hg', \<sigma>'))"
    using AddEvent_signed [where \<sigma> = \<sigma> and p = p and e = e and L = L and g = g and hg = hg
        and r = r and s = s]
    by blast
  show ?thesis
    by (intro conjI AddEvent_supplied_hash stored failed succeeds)
qed

text \<open>
  At \<open>ev_hello\<close> with the hash \<open>deadbeef\<close> and the signature \<open>zz\<close>, added with the nonce
  7, and at \<open>ev_hello\<close> added with no entropy.
\<close>

theorem AddEvent_overwrites_supplied_hash_witness:
  "[0 \<mapsto> ev_hello\<lparr>Hash := ''deadbeef'', Signature := ''zz''\<rparr>] (0::nat)
     = Some (ev_hello\<lparr>Hash := ''deadbeef'', Signature := ''zz''\<rparr>)
   \<and> AddEvent demo_lib 7 (NewHashgraph 1 1) 0
         [0 \<mapsto> ev_hello\<lparr>Hash := ''deadbeef'', Signature := ''zz''\<rparr>]
       = Inr (None, hg_hello, [0 \<mapsto> signed_hello])
   \<and> Events hg_hello (hashEvent demo_lib ev_hello) = Some 0
   \<and> map_option Hash ([0 \<mapsto> signed_hello] (0::nat)) = Some (hashEvent demo_lib ev_hello)
   \<and> AddEvent demo_lib 0 (NewHashgraph 1 1) 0 [0 \<mapsto> ev_hello]
       = Inr (Some ''no entropy'', NewHashgraph 1 1,
              [0 \<mapsto> ev_hello\<lparr>Hash := hashEvent demo_lib ev_hello\<rparr>])
   \<and> ecdsa_Sign demo_lib 0 (privateKey (NewHashgraph 1 1 :: (nat, nat) Hashgraph))
         (sha256 (hashEvent demo_lib ev_hello)) = Inl ''no entropy''
   \<and> ecdsa_Sign demo_lib 7 (privateKey (NewHashgraph 1 1 :: (nat, nat) Hashgraph))
         (sha256 (hashEvent demo_lib ev_hello)) = Inr (7, 8)"
proof -
  have run: "AddEvent demo_lib 7 (NewHashgraph 1 1) 0
        [0 \<mapsto> ev_hello\<lparr>Hash := ''deadbeef'', Signature := ''zz''\<rparr>]
      = Inr (None, hg_hello, [0 \<mapsto> signed_hello])"
    by (rule AddEvent_hello_supplied)
  have fail: "AddEvent demo_lib 0 (NewHashgraph 1 1) 0 [0 \<mapsto> ev_hello]
      = Inr (Some ''no entropy'', NewHashgraph (1::nat) (1::nat),
             [0 \<mapsto> ev_hello\<lparr>Hash := hashEvent demo_lib ev_hello\<rparr>])"
    by (simp add: AddEvent_def signEvent_def demo_lib_simps)
  from run fail
    AddEvent_overwrites_supplied_hash
      [where L = demo_lib and g = 7 and hg = "NewHashgraph (1::nat) (1::nat)" and p = 0
        and \<sigma> = "[0 \<mapsto> ev_hello\<lparr>Hash := ''deadbeef'', Signature := ''zz''\<rparr>]"
        and e = "ev_hello\<lparr>Hash := ''deadbeef'', Signature := ''zz''\<rparr>"
        and hg' = hg_hello and \<sigma>' = "[0 \<mapsto> signed_hello]" and r = 7 and s = 8]
    AddEvent_overwrites_supplied_hash
      [where L = demo_lib and g = 0 and hg = "NewHashgraph (1::nat) (1::nat)" and p = 0
        and \<sigma> = "[0 \<mapsto> ev_hello]" and e = ev_hello and x = "''no entropy''"
        and hg' = "NewHashgraph (1::nat) (1::nat)"
        and \<sigma>' = "[0 \<mapsto> ev_hello\<lparr>Hash := hashEvent demo_lib ev_hello\<rparr>]"]
  show ?thesis
    by (simp add: demo_lib_simps NewHashgraph_def hashEvent_unhashed)
qed

text \<open>
  C2 as stated fails: the supplied hash \<open>deadbeef\<close> is not the recomputed one and the
  supplied signature \<open>zz\<close> does not verify, and \<^verbatim>\<open>AddEvent\<close> returns \<^verbatim>\<open>nil\<close> and has
  stored the event.
\<close>

theorem mismatching_hash_is_inserted:
  "Hash (ev_hello\<lparr>Hash := ''deadbeef'', Signature := ''zz''\<rparr>)
     \<noteq> hashEvent demo_lib (ev_hello\<lparr>Hash := ''deadbeef'', Signature := ''zz''\<rparr>)
   \<and> \<not> verifyEventSignature demo_lib (ev_hello\<lparr>Hash := ''deadbeef'', Signature := ''zz''\<rparr>) 1
   \<and> AddEvent demo_lib 7 (NewHashgraph 1 1) 0
         [0 \<mapsto> ev_hello\<lparr>Hash := ''deadbeef'', Signature := ''zz''\<rparr>]
       = Inr (None, hg_hello, [0 \<mapsto> signed_hello])
   \<and> Events (NewHashgraph 1 1 :: (nat, nat) Hashgraph) (hashEvent demo_lib ev_hello) = None
   \<and> Events hg_hello (hashEvent demo_lib ev_hello) = Some 0"
proof -
  have "Hash (ev_hello\<lparr>Hash := ''deadbeef'', Signature := ''zz''\<rparr>)
      \<noteq> hashEvent demo_lib (ev_hello\<lparr>Hash := ''deadbeef'', Signature := ''zz''\<rparr>)"
    by (simp add: hashEvent_unhashed hashEvent_ev_hello)
  moreover
  have "\<not> verifyEventSignature demo_lib (ev_hello\<lparr>Hash := ''deadbeef'', Signature := ''zz''\<rparr>) 1"
    by (simp add: verifyEventSignature_def fromHexChar_def)
  moreover
  have "Events (NewHashgraph 1 1 :: (nat, nat) Hashgraph) (hashEvent demo_lib ev_hello) = None"
    by (simp add: NewHashgraph_def)
  moreover
  have "Events hg_hello (hashEvent demo_lib ev_hello) = Some 0"
    by (simp add: hashEvent_ev_hello hg_hello_def)
  ultimately show ?thesis
    using AddEvent_hello_supplied [where h = "''deadbeef''" and sg = "''zz''"] by simp
qed

end
